theory Spec2Isabelle
  imports Complex_Main
begin

section \<open>Numbers and strings\<close>

text \<open>
  The script is \<^verbatim>\<open>src/script.js\<close>. A JavaScript Number is modelled as a \<^typ>\<open>real\<close>.
  The functions below come in two versions. The plain ones compute with exact
  arithmetic, as in the specification's data model ("real-valued"); their comparisons,
  negations and control flow are those of the source, and they carry the statements
  that do not depend on how a result is rounded. The ones with the suffix \<open>64\<close> round
  every arithmetic result to binary64 as the code does; they carry the statements about
  the interpolation of the cursor and the opacity of the lines, which depend on it.
  A JavaScript string is the list of its UTF-16 code units; \<open>js\<close> writes an ASCII
  literal as such a list.
\<close>

type_synonym js_string = "nat list"

definition js :: "string \<Rightarrow> js_string" where
  "js s = map of_char s"

section \<open>CONFIG\<close>

definition CONFIG_cursor_size :: real where
  "CONFIG_cursor_size = 20"

definition CONFIG_cursor_followSpeed :: real where
  "CONFIG_cursor_followSpeed = 0.15"

definition CONFIG_particles_count :: nat where
  "CONFIG_particles_count = 50"

definition CONFIG_particles_speed :: real where
  "CONFIG_particles_speed = 0.5"

section \<open>utils\<close>

text \<open>\<^verbatim>\<open>lerp: (start, end, factor) => start + (end - start) * factor\<close>\<close>

definition lerp :: "real \<Rightarrow> real \<Rightarrow> real \<Rightarrow> real" where
  "lerp start end' factor = start + (end' - start) * factor"

section \<open>Theme management\<close>

text \<open>
  \<open>storedTheme\<close> is the persistence slot \<^verbatim>\<open>localStorage['theme']\<close> (\<open>None\<close>: no entry),
  \<open>currentTheme\<close> is \<^verbatim>\<open>STATE.currentTheme\<close>, \<open>dataTheme\<close> the \<^verbatim>\<open>data-theme\<close> attribute of
  the document element and \<open>bodyTransition\<close> the body's \<^verbatim>\<open>style.transition\<close> (which a
  timer clears 300 ms after a toggle; the timer is not part of the call).
\<close>

record theme_state =
  currentTheme :: js_string
  storedTheme :: "js_string option"
  dataTheme :: "js_string option"
  bodyTransition :: string

text \<open>
  \<^verbatim>\<open>currentTheme: localStorage.getItem('theme') || 'light'\<close>: a missing entry (null) and
  the empty string are falsy.
\<close>

definition loadTheme :: "js_string option \<Rightarrow> theme_state" where
  "loadTheme stored =
     \<lparr> currentTheme = (case stored of None \<Rightarrow> js ''light''
                        | Some s \<Rightarrow> if s = [] then js ''light'' else s),
       storedTheme = stored,
       dataTheme = None,
       bodyTransition = '''' \<rparr>"

definition initializeTheme :: "theme_state \<Rightarrow> theme_state" where
  "initializeTheme t = t\<lparr>dataTheme := Some (currentTheme t)\<rparr>"

definition toggleTheme :: "theme_state \<Rightarrow> theme_state" where
  "toggleTheme t =
     (let t1 = t\<lparr>currentTheme :=
                   (if currentTheme t = js ''light'' then js ''dark'' else js ''light'')\<rparr>;
          t2 = t1\<lparr>dataTheme := Some (currentTheme t1)\<rparr>;
          t3 = t2\<lparr>storedTheme := Some (currentTheme t2)\<rparr>
      in t3\<lparr>bodyTransition := ''background-color 0.3s ease, color 0.3s ease''\<rparr>)"

section \<open>Contact form: field validation\<close>

text \<open>
  The white space of \<^verbatim>\<open>String.prototype.trim\<close> and of the class \<^verbatim>\<open>\s\<close>: the WhiteSpace
  and LineTerminator code units of ECMAScript.
\<close>

definition isWhiteSpace :: "nat \<Rightarrow> bool" where
  "isWhiteSpace c =
     (c = 9 \<or> c = 10 \<or> c = 11 \<or> c = 12 \<or> c = 13 \<or> c = 32 \<or> c = 160 \<or> c = 5760
      \<or> (8192 \<le> c \<and> c \<le> 8202) \<or> c = 8232 \<or> c = 8233 \<or> c = 8239 \<or> c = 8287
      \<or> c = 12288 \<or> c = 65279)"

definition trim :: "js_string \<Rightarrow> js_string" where
  "trim s = rev (dropWhile isWhiteSpace (rev (dropWhile isWhiteSpace s)))"

text \<open>
  The fragment of regular expressions the script uses: an anchored sequence of items,
  each a literal code unit or a character class repeated one or more times.
  \<open>regex_test\<close> is \<^verbatim>\<open>/^...$/.test\<close>: the whole string must be consumed, and a
  repetition may give back what it took (backtracking).
\<close>

datatype regex_item = Lit nat | ClassPlus "nat \<Rightarrow> bool"

fun regex_test :: "regex_item list \<Rightarrow> js_string \<Rightarrow> bool" where
  "regex_test [] s = (s = [])"
| "regex_test (Lit c # r) [] = False"
| "regex_test (Lit c # r) (d # s) = (d = c \<and> regex_test r s)"
| "regex_test (ClassPlus P # r) [] = False"
| "regex_test (ClassPlus P # r) (d # s) =
     (P d \<and> (regex_test (ClassPlus P # r) s \<or> regex_test r s))"

text \<open>The class \<^verbatim>\<open>[^\s@]\<close>; \<open>64\<close> is \<^verbatim>\<open>@\<close> and \<open>46\<close> is the dot.\<close>

definition notSpaceOrAt :: "nat \<Rightarrow> bool" where
  "notSpaceOrAt c = (\<not> isWhiteSpace c \<and> c \<noteq> 64)"

text \<open>\<^verbatim>\<open>const emailRegex = /^[^\s@]+@[^\s@]+\.[^\s@]+$/\<close>\<close>

definition emailRegex :: "regex_item list" where
  "emailRegex =
     [ClassPlus notSpaceOrAt, Lit 64, ClassPlus notSpaceOrAt, Lit 46, ClassPlus notSpaceOrAt]"

text \<open>
  A form field: its \<^verbatim>\<open>value\<close>, whether it has the \<^verbatim>\<open>required\<close> attribute, its \<^verbatim>\<open>type\<close>,
  and what the validation shows on it (\<^verbatim>\<open>style.borderColor\<close> and the text of the
  \<^verbatim>\<open>.error-message\<close> element beside it, \<open>None\<close> when there is none).
\<close>

record field =
  fvalue :: js_string
  required :: bool
  ftype :: js_string
  borderColor :: string
  errorDiv :: "string option"

definition clearFieldError :: "field \<Rightarrow> field" where
  "clearFieldError f = f\<lparr>borderColor := '''', errorDiv := None\<rparr>"

definition showFieldError :: "field \<Rightarrow> string \<Rightarrow> field" where
  "showFieldError f message = f\<lparr>borderColor := ''#dc2626'', errorDiv := Some message\<rparr>"

text \<open>\<open>validateField\<close> returns \<^verbatim>\<open>isValid\<close> and the field as the call leaves it.\<close>

definition validateField :: "field \<Rightarrow> bool \<times> field" where
  "validateField f0 =
     (let v = trim (fvalue f0);
          f = clearFieldError f0;
          (isValid, errorMessage) = (True, '''');
          (isValid, errorMessage) =
             (if required f \<and> v = [] then (False, ''This field is required'')
              else (isValid, errorMessage));
          (isValid, errorMessage) =
             (if ftype f = js ''email'' \<and> v \<noteq> [] then
                (if \<not> regex_test emailRegex v
                 then (False, ''Please enter a valid email address'')
                 else (isValid, errorMessage))
              else (isValid, errorMessage))
      in (isValid, if \<not> isValid then showFieldError f errorMessage else f))"

text \<open>
  The shape \<^verbatim>\<open>local@domain.tld\<close> in the specification's words: a local part, an at sign,
  a domain, a dot and a top-level part, each part non-empty and free of white space and
  at signs.
\<close>

definition local_at_domain_tld :: "js_string \<Rightarrow> bool" where
  "local_at_domain_tld s =
     (\<exists>local domain tld.
        s = local @ [64] @ domain @ [46] @ tld
        \<and> local \<noteq> [] \<and> domain \<noteq> [] \<and> tld \<noteq> []
        \<and> list_all notSpaceOrAt local \<and> list_all notSpaceOrAt domain
        \<and> list_all notSpaceOrAt tld)"

section \<open>The page\<close>

text \<open>
  The variables that \<^verbatim>\<open>updateCursor\<close> closes over (\<^verbatim>\<open>let currentX = 0\<close>, ...), and the
  \<^verbatim>\<open>.cursor\<close> element: the translation its \<^verbatim>\<open>style.transform\<close> holds, and the properties
  \<^verbatim>\<open>targetX\<close> and \<^verbatim>\<open>targetY\<close> of the element object (absent until something assigns them).
\<close>

record cursor_closure =
  currentX :: real
  currentY :: real
  targetX :: real
  targetY :: real

record cursor_element =
  translate3d :: "(real \<times> real) option"
  element_targetX :: "real option"
  element_targetY :: "real option"

record canvas =
  width :: real
  height :: real

record hero_element =
  offsetWidth :: real
  offsetHeight :: real
  children :: "canvas list"

record particle =
  x :: real
  y :: real
  vx :: real
  vy :: real
  radius :: real
  opacity :: real

text \<open>
  What a frame draws on the 2D context, in order: \<^verbatim>\<open>clearRect(0, 0, w, h)\<close>; a filled
  circle (\<^verbatim>\<open>arc(x, y, radius, 0, 2\<pi>)\<close> filled with the particle's opacity); a stroked line
  (\<^verbatim>\<open>moveTo(x1, y1); lineTo(x2, y2); stroke()\<close> with the alpha of its \<^verbatim>\<open>strokeStyle\<close>).
\<close>

datatype draw_op =
  ClearRect real real real real
| FillCircle real real real real
| StrokeLine real real real real real

datatype listener = ResizeCanvas | CursorMouseEnter | CursorMouseLeave

text \<open>The canvas and the array that \<^verbatim>\<open>animate\<close> closes over.\<close>

record particle_closure =
  the_canvas :: canvas
  particles :: "particle list"

text \<open>
  The state the two components read and write: \<^verbatim>\<open>STATE.isReducedMotion\<close>,
  \<^verbatim>\<open>window.innerWidth\<close>, \<^verbatim>\<open>STATE.mousePosition\<close>, the elements
  \<^verbatim>\<open>document.querySelector('.cursor')\<close> and \<^verbatim>\<open>document.querySelector('.hero')\<close> (\<open>None\<close>:
  null), the number of elements matching \<^verbatim>\<open>'a, button, .project-card, .skill-item'\<close>, the
  two animation loops (\<open>None\<close>: never started; a started loop asks for the next frame
  unconditionally), the listeners registered and the drawing operations issued so far.
\<close>

record page =
  isReducedMotion :: bool
  innerWidth :: real
  mousePosition :: "real \<times> real"
  cursorElement :: "cursor_element option"
  heroElement :: "hero_element option"
  interactiveElements :: nat
  cursorLoop :: "cursor_closure option"
  particleLoop :: "particle_closure option"
  listeners :: "listener list"
  drawn :: "draw_op list"

datatype js_error = TypeError

section \<open>Custom cursor\<close>

text \<open>
  One run of \<^verbatim>\<open>updateCursor\<close> on its closure: both coordinates move by \<^verbatim>\<open>utils.lerp\<close>
  towards the closure's target.
\<close>

definition updateCursorVars :: "cursor_closure \<Rightarrow> cursor_closure" where
  "updateCursorVars v =
     (let v1 = v\<lparr>currentX := lerp (currentX v) (targetX v) CONFIG_cursor_followSpeed\<rparr>
      in v1\<lparr>currentY := lerp (currentY v1) (targetY v1) CONFIG_cursor_followSpeed\<rparr>)"

text \<open>
  \<^verbatim>\<open>updateCursor\<close> on the page: the closure is updated and the element is translated to
  \<^verbatim>\<open>(currentX - size / 2, currentY - size / 2)\<close>.
\<close>

definition updateCursor :: "page \<Rightarrow> page" where
  "updateCursor p =
     (case cursorLoop p of
        None \<Rightarrow> p
      | Some v \<Rightarrow>
          (let v' = updateCursorVars v
           in p\<lparr>cursorLoop := Some v',
                cursorElement :=
                  map_option
                    (\<lambda>el. el\<lparr>translate3d :=
                       Some (currentX v' - CONFIG_cursor_size / 2,
                             currentY v' - CONFIG_cursor_size / 2)\<rparr>)
                    (cursorElement p)\<rparr>))"

definition initializeCursor :: "page \<Rightarrow> js_error + page" where
  "initializeCursor p =
     (if isReducedMotion p \<or> innerWidth p \<le> 768 then Inr p
      else case cursorElement p of
        None \<Rightarrow> Inr p
      | Some cursor \<Rightarrow>
          (let p1 = p\<lparr>cursorLoop :=
                       Some \<lparr>currentX = 0, currentY = 0, targetX = 0, targetY = 0\<rparr>\<rparr>;
               p2 = updateCursor p1
           in Inr (p2\<lparr>listeners := listeners p2 @
                        concat (replicate (interactiveElements p2)
                                  [CursorMouseEnter, CursorMouseLeave])\<rparr>)))"

text \<open>
  \<^verbatim>\<open>handleMouseMove(e)\<close> with \<^verbatim>\<open>e.clientX\<close> and \<^verbatim>\<open>e.clientY\<close>: it writes
  \<^verbatim>\<open>STATE.mousePosition\<close> and, when the page has a \<^verbatim>\<open>.cursor\<close> element, the properties
  \<^verbatim>\<open>targetX\<close> and \<^verbatim>\<open>targetY\<close> of that element.
\<close>

definition handleMouseMove :: "real \<Rightarrow> real \<Rightarrow> page \<Rightarrow> page" where
  "handleMouseMove clientX clientY p =
     (let p1 = p\<lparr>mousePosition := (clientX, clientY)\<rparr>
      in p1\<lparr>cursorElement :=
              map_option
                (\<lambda>el. el\<lparr>element_targetX := Some clientX, element_targetY := Some clientY\<rparr>)
                (cursorElement p1)\<rparr>)"

section \<open>Particles system\<close>

text \<open>
  The body of \<^verbatim>\<open>particles.forEach\<close> up to the drawing: the position advances by the
  velocity, then each velocity component is negated when its coordinate is at or
  beyond an edge of the canvas.
\<close>

definition advance :: "canvas \<Rightarrow> particle \<Rightarrow> particle" where
  "advance c p =
     (let p1 = p\<lparr>x := x p + vx p\<rparr>;
          p2 = p1\<lparr>y := y p1 + vy p1\<rparr>;
          p3 = (if x p2 \<le> 0 \<or> x p2 \<ge> width c then p2\<lparr>vx := - vx p2\<rparr> else p2)
      in (if y p3 \<le> 0 \<or> y p3 \<ge> height c then p3\<lparr>vy := - vy p3\<rparr> else p3))"

definition distance :: "particle \<Rightarrow> particle \<Rightarrow> real" where
  "distance p q = (let dx = x p - x q; dy = y p - y q in sqrt (dx * dx + dy * dy))"

text \<open>The body of the inner \<^verbatim>\<open>particles.forEach(otherParticle => ...)\<close>.\<close>

definition connect :: "particle \<Rightarrow> particle \<Rightarrow> draw_op list" where
  "connect p q =
     (if distance p q < 100
      then [StrokeLine (x p) (y p) (x q) (y q) (0.1 * (1 - distance p q / 100))]
      else [])"

text \<open>
  The outer \<^verbatim>\<open>forEach\<close> mutates the array in place: when a particle is visited, the
  particles before it (\<open>visited\<close>) have moved in this frame and those after it have not,
  and the inner \<^verbatim>\<open>forEach\<close> runs over the whole array as it then is, the particle itself
  included.
\<close>

fun forEach_particle :: "canvas \<Rightarrow> particle list \<Rightarrow> particle list \<Rightarrow> particle list \<times> draw_op list" where
  "forEach_particle c visited [] = (visited, [])"
| "forEach_particle c visited (p # rest) =
     (let p' = advance c p;
          ops = FillCircle (x p') (y p') (radius p') (opacity p')
                # concat (map (connect p') (visited @ p' # rest));
          (ps, ops') = forEach_particle c (visited @ [p']) rest
      in (ps, ops @ ops'))"

definition animate :: "canvas \<Rightarrow> particle list \<Rightarrow> particle list \<times> draw_op list" where
  "animate c ps =
     (let (ps', ops) = forEach_particle c [] ps
      in (ps', ClearRect 0 0 (width c) (height c) # ops))"

text \<open>
  \<^verbatim>\<open>Math.random()\<close> is a parameter: \<open>rnd k\<close> is the result of the \<open>k\<close>-th call, a number
  in \<open>[0, 1)\<close>. Particle \<open>i\<close> takes the six calls from \<open>6 * i\<close> on, in the order of the
  object literal.
\<close>

definition createParticle :: "(nat \<Rightarrow> real) \<Rightarrow> canvas \<Rightarrow> nat \<Rightarrow> particle" where
  "createParticle rnd c i =
     \<lparr> x = rnd (6 * i) * width c,
       y = rnd (6 * i + 1) * height c,
       vx = (rnd (6 * i + 2) - 0.5) * CONFIG_particles_speed,
       vy = (rnd (6 * i + 3) - 0.5) * CONFIG_particles_speed,
       radius = rnd (6 * i + 4) * 2 + 1,
       opacity = rnd (6 * i + 5) * 0.5 + 0.2 \<rparr>"

text \<open>
  \<^verbatim>\<open>createParticleCanvas\<close>: null without a \<^verbatim>\<open>.hero\<close> element; otherwise a canvas of the
  hero's size, the resize listener registered, the canvas appended to the hero.
\<close>

definition createParticleCanvas :: "page \<Rightarrow> canvas option \<times> page" where
  "createParticleCanvas p =
     (case heroElement p of
        None \<Rightarrow> (None, p)
      | Some hero \<Rightarrow>
          (let c = \<lparr>width = offsetWidth hero, height = offsetHeight hero\<rparr>;
               p1 = p\<lparr>listeners := listeners p @ [ResizeCanvas]\<rparr>
           in (Some c, p1\<lparr>heroElement := Some (hero\<lparr>children := children hero @ [c]\<rparr>)\<rparr>)))"

definition initializeParticles :: "(nat \<Rightarrow> real) \<Rightarrow> page \<Rightarrow> js_error + page" where
  "initializeParticles rnd p =
     (if isReducedMotion p \<or> innerWidth p \<le> 768 then Inr p
      else case createParticleCanvas p of
        (None, p1) \<Rightarrow> Inr p1
      | (Some c, p1) \<Rightarrow>
          (let created = map (createParticle rnd c) [0..<CONFIG_particles_count];
               (ps, ops) = animate c created
           in Inr (p1\<lparr>particleLoop := Some \<lparr>the_canvas = c, particles = ps\<rparr>,
                       drawn := drawn p1 @ ops\<rparr>)))"

text \<open>One run of \<^verbatim>\<open>animate\<close> on the page, when the loop has been started.\<close>

definition animateFrame :: "page \<Rightarrow> page" where
  "animateFrame p =
     (case particleLoop p of
        None \<Rightarrow> p
      | Some cl \<Rightarrow>
          (let (ps, ops) = animate (the_canvas cl) (particles cl)
           in p\<lparr>particleLoop := Some (cl\<lparr>particles := ps\<rparr>), drawn := drawn p @ ops\<rparr>))"

section \<open>Events\<close>

text \<open>
  What the host delivers after initialisation: a pointer move with its viewport
  coordinates, and an animation frame, which runs the callbacks of the started loops
  in the order they were registered (the cursor's first).
\<close>

datatype event = MouseMove real real | AnimationFrame

fun handleEvent :: "event \<Rightarrow> page \<Rightarrow> page" where
  "handleEvent (MouseMove clientX clientY) p = handleMouseMove clientX clientY p"
| "handleEvent AnimationFrame p = animateFrame (updateCursor p)"

fun run :: "event list \<Rightarrow> page \<Rightarrow> page" where
  "run [] p = p"
| "run (e # es) p = run es (handleEvent e p)"

text \<open>The particle array after the frames of a run, one canvas size per frame.\<close>

fun frames :: "canvas list \<Rightarrow> particle list \<Rightarrow> particle list" where
  "frames [] ps = ps"
| "frames (c # cs) ps = frames cs (fst (animate c ps))"



fun is_line :: "draw_op \<Rightarrow> bool" where
  "is_line (StrokeLine a b c d e) = True"
| "is_line _ = False"





text \<open>
  Two pages the statements below are evaluated on: a desktop page with a \<^verbatim>\<open>.cursor\<close> and a
  \<^verbatim>\<open>.hero\<close> element, and the same page without the two elements.
\<close>

definition example_page :: page where
  "example_page =
     \<lparr> isReducedMotion = False,
       innerWidth = 1280,
       mousePosition = (0, 0),
       cursorElement =
         Some \<lparr>translate3d = None, element_targetX = None, element_targetY = None\<rparr>,
       heroElement = Some \<lparr>offsetWidth = 800, offsetHeight = 600, children = []\<rparr>,
       interactiveElements = 0,
       cursorLoop = None,
       particleLoop = None,
       listeners = [],
       drawn = [] \<rparr>"

definition bare_page :: page where
  "bare_page = example_page\<lparr>cursorElement := None, heroElement := None\<rparr>"

text \<open>The target that \<^verbatim>\<open>updateCursor\<close> interpolates towards, when the loop runs.\<close>

definition closure_target :: "page \<Rightarrow> (real \<times> real) option" where
  "closure_target p = map_option (\<lambda>v. (targetX v, targetY v)) (cursorLoop p)"

text \<open>The line operations among the drawing operations of a frame.\<close>

definition lines_of :: "draw_op list \<Rightarrow> draw_op list" where
  "lines_of ops = filter is_line ops"


section \<open>Binary64 arithmetic\<close>

text \<open>
  A JavaScript Number is an IEEE 754 binary64 value, and every arithmetic operation
  returns the exact result rounded to the nearest such value, ties to the even
  significand. \<open>round64\<close> is that rounding on the reals: the result is a multiple of
  \<open>2\<close> to the power \<open>ulp_exponent\<close>, which is 52 below the exponent of the argument and
  never below -1074 (gradual underflow). Overflow to \<^verbatim>\<open>Infinity\<close> is not modelled: a result
  is rounded as if the exponent range had no upper end, which is what the code computes
  for results of magnitude below \<open>2 ^ 1024\<close>.
\<close>

definition round_half_even :: "real \<Rightarrow> int" where
  "round_half_even w =
     (let f = \<lfloor>w\<rfloor>; r = w - of_int f
      in if r < 1 / 2 then f else if 1 / 2 < r then f + 1 else if even f then f else f + 1)"

definition ulp_exponent :: "real \<Rightarrow> int" where
  "ulp_exponent a = max (\<lfloor>log 2 \<bar>a\<bar>\<rfloor> - 52) (- 1074)"

definition round64 :: "real \<Rightarrow> real" where
  "round64 a =
     sgn a * (of_int (round_half_even (\<bar>a\<bar> / 2 powr of_int (ulp_exponent a)))
              * 2 powr of_int (ulp_exponent a))"







text \<open>
  The particle update and the connecting lines with every result rounded:
  \<^verbatim>\<open>particle.x += particle.vx\<close>, \<^verbatim>\<open>Math.sqrt(dx * dx + dy * dy)\<close> with \<^verbatim>\<open>Math.sqrt\<close> the
  correctly rounded square root, and the alpha \<^verbatim>\<open>0.1 * (1 - distance / 100)\<close> of the
  stroke style. Comparisons and negations are exact.
\<close>

definition line_alpha64 :: "real \<Rightarrow> real" where
  "line_alpha64 d = round64 (round64 0.1 * round64 (1 - round64 (d / 100)))"

definition advance64 :: "canvas \<Rightarrow> particle \<Rightarrow> particle" where
  "advance64 c p =
     (let p1 = p\<lparr>x := round64 (x p + vx p)\<rparr>;
          p2 = p1\<lparr>y := round64 (y p1 + vy p1)\<rparr>;
          p3 = (if x p2 \<le> 0 \<or> x p2 \<ge> width c then p2\<lparr>vx := - vx p2\<rparr> else p2)
      in (if y p3 \<le> 0 \<or> y p3 \<ge> height c then p3\<lparr>vy := - vy p3\<rparr> else p3))"

definition distance64 :: "particle \<Rightarrow> particle \<Rightarrow> real" where
  "distance64 p q =
     (let dx = round64 (x p - x q);
          dy = round64 (y p - y q)
      in round64 (sqrt (round64 (round64 (dx * dx) + round64 (dy * dy)))))"

definition connect64 :: "particle \<Rightarrow> particle \<Rightarrow> draw_op list" where
  "connect64 p q =
     (if distance64 p q < 100
      then [StrokeLine (x p) (y p) (x q) (y q) (line_alpha64 (distance64 p q))]
      else [])"

fun forEach_particle64 :: "canvas \<Rightarrow> particle list \<Rightarrow> particle list \<Rightarrow> particle list \<times> draw_op list" where
  "forEach_particle64 c visited [] = (visited, [])"
| "forEach_particle64 c visited (p # rest) =
     (let p' = advance64 c p;
          ops = FillCircle (x p') (y p') (radius p') (opacity p')
                # concat (map (connect64 p') (visited @ p' # rest));
          (ps, ops') = forEach_particle64 c (visited @ [p']) rest
      in (ps, ops @ ops'))"

definition animate64 :: "canvas \<Rightarrow> particle list \<Rightarrow> particle list \<times> draw_op list" where
  "animate64 c ps =
     (let (ps', ops) = forEach_particle64 c [] ps
      in (ps', ClearRect 0 0 (width c) (height c) # ops))"

section \<open>The per-frame update of a particle\<close>

lemma advance_x: "x (advance c p) = x p + vx p"
  by (simp add: advance_def Let_def)

lemma advance_y: "y (advance c p) = y p + vy p"
  by (simp add: advance_def Let_def)

lemma advance_vx:
  "vx (advance c p) = (if x p + vx p \<le> 0 \<or> x p + vx p \<ge> width c then - vx p else vx p)"
  by (simp add: advance_def Let_def)

lemma advance_vy:
  "vy (advance c p) = (if y p + vy p \<le> 0 \<or> y p + vy p \<ge> height c then - vy p else vy p)"
  by (simp add: advance_def Let_def)

lemma advance_radius: "radius (advance c p) = radius p"
  by (simp add: advance_def Let_def)

lemma advance_opacity: "opacity (advance c p) = opacity p"
  by (simp add: advance_def Let_def)

text \<open>The array after a frame: every particle has advanced once.\<close>

lemma forEach_particle_fst:
  "fst (forEach_particle c visited todo) = visited @ map (advance c) todo"
  by (induction todo arbitrary: visited) (simp_all add: Let_def case_prod_unfold)

lemma animate_fst: "fst (animate c ps) = map (advance c) ps"
  by (simp add: animate_def forEach_particle_fst case_prod_unfold)

lemma frames_map: "frames cs ps = map (\<lambda>p. fold advance cs p) ps"
  by (induction cs arbitrary: ps) (simp_all add: animate_fst comp_def)

subsection \<open>Boundary reflection\<close>








text \<open>
  Claim C4: in a frame's update the velocity component of an axis is replaced by its
  negation exactly when the coordinate of that axis, after the advance of that frame,
  is at or beyond an edge (\<open>\<le> 0\<close> or \<open>\<ge>\<close> the extent), and is left as it is otherwise.
  For a non-zero component the new value is the negated one if and only if the
  coordinate is at or beyond an edge. (The negation of a zero component is a zero again.)
\<close>

theorem C4_flip_iff_at_boundary:
  "(x (advance c p) \<le> 0 \<or> x (advance c p) \<ge> width c \<longrightarrow> vx (advance c p) = - vx p)
   \<and> (\<not> (x (advance c p) \<le> 0 \<or> x (advance c p) \<ge> width c) \<longrightarrow> vx (advance c p) = vx p)
   \<and> (vx p \<noteq> 0 \<longrightarrow>
        (vx (advance c p) = - vx p \<longleftrightarrow> x (advance c p) \<le> 0 \<or> x (advance c p) \<ge> width c))
   \<and> (y (advance c p) \<le> 0 \<or> y (advance c p) \<ge> height c \<longrightarrow> vy (advance c p) = - vy p)
   \<and> (\<not> (y (advance c p) \<le> 0 \<or> y (advance c p) \<ge> height c) \<longrightarrow> vy (advance c p) = vy p)
   \<and> (vy p \<noteq> 0 \<longrightarrow>
        (vy (advance c p) = - vy p \<longleftrightarrow> y (advance c p) \<le> 0 \<or> y (advance c p) \<ge> height c))"
  by (simp add: advance_x advance_y advance_vx advance_vy)

theorem C4_flip_iff_at_boundary_witness:
  "x (advance \<lparr>width = 800, height = 600\<rparr>
        \<lparr>x = 0.125, y = 300, vx = - 0.25, vy = 0.25, radius = 1, opacity = 0.5\<rparr>) \<le> 0
   \<and> vx \<lparr>x = 0.125, y = 300, vx = - 0.25, vy = 0.25, radius = 1, opacity = 0.5\<rparr> \<noteq> 0
   \<and> vx (advance \<lparr>width = 800, height = 600\<rparr>
        \<lparr>x = 0.125, y = 300, vx = - 0.25, vy = 0.25, radius = 1, opacity = 0.5\<rparr>) = 0.25
   \<and> \<not> (y (advance \<lparr>width = 800, height = 600\<rparr>
        \<lparr>x = 0.125, y = 300, vx = - 0.25, vy = 0.25, radius = 1, opacity = 0.5\<rparr>) \<le> 0
        \<or> y (advance \<lparr>width = 800, height = 600\<rparr>
        \<lparr>x = 0.125, y = 300, vx = - 0.25, vy = 0.25, radius = 1, opacity = 0.5\<rparr>) \<ge> 600)
   \<and> vy (advance \<lparr>width = 800, height = 600\<rparr>
        \<lparr>x = 0.125, y = 300, vx = - 0.25, vy = 0.25, radius = 1, opacity = 0.5\<rparr>) = 0.25"
  using C4_flip_iff_at_boundary [of "\<lparr>width = 800, height = 600\<rparr>"
      "\<lparr>x = 0.125, y = 300, vx = - 0.25, vy = 0.25, radius = 1, opacity = 0.5\<rparr>"]
  by (simp add: advance_x advance_y)

subsection \<open>What a frame leaves alone\<close>

lemma fold_advance_fixed:
  "\<bar>vx (fold advance cs p)\<bar> = \<bar>vx p\<bar> \<and> \<bar>vy (fold advance cs p)\<bar> = \<bar>vy p\<bar>
   \<and> radius (fold advance cs p) = radius p \<and> opacity (fold advance cs p) = opacity p"
proof (induction cs arbitrary: p)
  case Nil
  show ?case by simp
next
  case (Cons c cs)
  have "\<bar>vx (advance c p)\<bar> = \<bar>vx p\<bar>" "\<bar>vy (advance c p)\<bar> = \<bar>vy p\<bar>"
    by (simp_all add: advance_vx advance_vy)
  with Cons[of "advance c p"] show ?case
    by (simp add: advance_radius advance_opacity)
qed

text \<open>
  Claim C6: over any number of frames, whatever the size of the canvas at each of them,
  every particle keeps the absolute values of its velocity components, its radius and
  its opacity. A frame advances each particle once; the advance adds the velocity to the
  position and leaves each velocity component as it is or negates it.
\<close>

theorem C6_magnitudes_fixed:
  "map (\<lambda>p. (\<bar>vx p\<bar>, \<bar>vy p\<bar>, radius p, opacity p)) (frames cs ps)
     = map (\<lambda>p. (\<bar>vx p\<bar>, \<bar>vy p\<bar>, radius p, opacity p)) ps
   \<and> fst (animate c ps) = map (advance c) ps
   \<and> x (advance c p) = x p + vx p \<and> y (advance c p) = y p + vy p
   \<and> (vx (advance c p) = vx p \<or> vx (advance c p) = - vx p)
   \<and> (vy (advance c p) = vy p \<or> vy (advance c p) = - vy p)
   \<and> radius (advance c p) = radius p \<and> opacity (advance c p) = opacity p"
  by (simp add: frames_map comp_def fold_advance_fixed animate_fst advance_x advance_y
      advance_vx advance_vy advance_radius advance_opacity)

section \<open>Connecting lines\<close>



lemma lines_of_append: "lines_of (xs @ ys) = lines_of xs @ lines_of ys"
  by (simp add: lines_of_def)


lemma upt_0_Suc: "[0..<Suc n] = 0 # map Suc [0..<n]"
  by (simp add: upt_conv_Cons map_Suc_upt del: upt_Suc)





lemma distance_less_iff:
  "0 \<le> r \<Longrightarrow> distance p q < r \<longleftrightarrow>
     (x p - x q) * (x p - x q) + (y p - y q) * (y p - y q) < r * r"
  using real_sqrt_less_iff [of "(x p - x q) * (x p - x q) + (y p - y q) * (y p - y q)" "r * r"]
  by (simp add: distance_def Let_def)



section \<open>Rounding to binary64\<close>

text \<open>
  Rounding to the nearest integer, ties to even, is monotone, fixes the integers and
  stays within one half of its argument.
\<close>

lemma rhe_int: "round_half_even (of_int m) = m"
  by (simp add: round_half_even_def)


lemma rhe_lower: "w - 1 / 2 \<le> of_int (round_half_even w)"
  unfolding round_half_even_def Let_def by (auto; linarith)

lemma rhe_floor_le: "\<lfloor>w\<rfloor> \<le> round_half_even w"
  unfolding round_half_even_def Let_def by auto

lemma rhe_le_floor: "round_half_even w \<le> \<lfloor>w\<rfloor> + 1"
  unfolding round_half_even_def Let_def by auto

lemma rhe_mono: "v \<le> w \<Longrightarrow> round_half_even v \<le> round_half_even w"
proof -
  assume le: "v \<le> w"
  then have fl: "\<lfloor>v\<rfloor> \<le> \<lfloor>w\<rfloor>" by (rule floor_mono)
  show ?thesis
  proof (cases "\<lfloor>v\<rfloor> = \<lfloor>w\<rfloor>")
    case True
    with le show ?thesis
      unfolding round_half_even_def Let_def by auto
  next
    case False
    with fl have "\<lfloor>v\<rfloor> + 1 \<le> \<lfloor>w\<rfloor>" by simp
    with rhe_le_floor [of v] rhe_floor_le [of w] show ?thesis by linarith
  qed
qed

lemma rhe_nonneg: "0 \<le> w \<Longrightarrow> 0 \<le> round_half_even w"
  using rhe_mono [of 0 w] rhe_int [of 0] by simp


lemma scaled_less:
  assumes "0 < a"
  shows "a < 2 powr (of_int (ulp_exponent a) + 53)"
proof -
  have "log 2 a < of_int \<lfloor>log 2 a\<rfloor> + 1" by linarith
  also have "\<dots> \<le> of_int (ulp_exponent a) + 53"
    using assms by (simp add: ulp_exponent_def)
  finally have "2 powr (log 2 a) < 2 powr (of_int (ulp_exponent a) + 53)"
    by (simp add: powr_less_cancel_iff)
  with assms show ?thesis by simp
qed

lemma scaled_ge:
  assumes "0 < a" and "ulp_exponent a \<noteq> - 1074"
  shows "2 powr (of_int (ulp_exponent a) + 52) \<le> a"
proof -
  from assms have "ulp_exponent a = \<lfloor>log 2 a\<rfloor> - 52"
    by (simp add: ulp_exponent_def max_def split: if_splits)
  then have "of_int (ulp_exponent a) + 52 \<le> log 2 a"
    by simp
  then have "2 powr (of_int (ulp_exponent a) + 52) \<le> 2 powr (log 2 a)"
    by (simp add: powr_le_cancel_iff)
  with assms show ?thesis by simp
qed

lemma ulp_exponent_mono:
  assumes "0 < a" and "a \<le> b"
  shows "ulp_exponent a \<le> ulp_exponent b"
proof -
  from assms have "log 2 a \<le> log 2 b" by simp
  then have "\<lfloor>log 2 a\<rfloor> \<le> \<lfloor>log 2 b\<rfloor>" by (rule floor_mono)
  with assms show ?thesis by (simp add: ulp_exponent_def)
qed

lemma ulp_exponent_ge: "- 1074 \<le> ulp_exponent a"
  by (simp add: ulp_exponent_def)

lemma round64_0: "round64 0 = 0"
  by (simp add: round64_def)

lemma ulp_exponent_minus: "ulp_exponent (- a) = ulp_exponent a"
  by (simp add: ulp_exponent_def)

lemma round64_minus: "round64 (- a) = - round64 a"
  by (simp add: round64_def ulp_exponent_minus sgn_minus)

lemma round64_pos:
  "0 < a \<Longrightarrow> round64 a =
     of_int (round_half_even (a / 2 powr of_int (ulp_exponent a))) * 2 powr of_int (ulp_exponent a)"
  by (simp add: round64_def)

lemma round64_nonneg: "0 \<le> a \<Longrightarrow> 0 \<le> round64 a"
proof -
  assume "0 \<le> a"
  then have "0 \<le> a / 2 powr of_int (ulp_exponent a)" by simp
  then have "0 \<le> round_half_even (a / 2 powr of_int (ulp_exponent a))" by (rule rhe_nonneg)
  with \<open>0 \<le> a\<close> show ?thesis
    by (cases "a = 0") (simp_all add: round64_0 round64_pos)
qed


lemma round64_upper:
  assumes "0 < a"
  shows "round64 a \<le> 2 powr (of_int (ulp_exponent a) + 53)"
proof -
  let ?e = "of_int (ulp_exponent a) :: real"
  have "a / 2 powr ?e < 2 powr 53"
    using scaled_less [OF assms] by (simp add: powr_add field_simps)
  then have "a / 2 powr ?e \<le> of_int (2 ^ 53)" by simp
  then have "round_half_even (a / 2 powr ?e) \<le> round_half_even (of_int (2 ^ 53))"
    by (rule rhe_mono)
  then have "round_half_even (a / 2 powr ?e) \<le> 2 ^ 53"
    by (simp only: rhe_int)
  then have "(of_int (round_half_even (a / 2 powr ?e)) :: real) \<le> 2 ^ 53"
    by (metis of_int_le_iff of_int_numeral of_int_power)
  then have "of_int (round_half_even (a / 2 powr ?e)) * 2 powr ?e \<le> 2 ^ 53 * 2 powr ?e"
    by (simp add: mult_right_mono)
  with assms show ?thesis by (simp add: round64_pos powr_add)
qed

lemma round64_lower:
  assumes "0 < a" and "ulp_exponent a \<noteq> - 1074"
  shows "2 powr (of_int (ulp_exponent a) + 52) \<le> round64 a"
proof -
  let ?e = "of_int (ulp_exponent a) :: real"
  have "2 powr 52 \<le> a / 2 powr ?e"
    using scaled_ge [OF assms] by (simp add: powr_add field_simps)
  then have "of_int (2 ^ 52) \<le> a / 2 powr ?e" by simp
  then have "round_half_even (of_int (2 ^ 52)) \<le> round_half_even (a / 2 powr ?e)"
    by (rule rhe_mono)
  then have "2 ^ 52 \<le> round_half_even (a / 2 powr ?e)"
    by (simp only: rhe_int)
  then have "(2 ^ 52 :: real) \<le> of_int (round_half_even (a / 2 powr ?e))"
    by (metis of_int_le_iff of_int_numeral of_int_power)
  then have "2 ^ 52 * 2 powr ?e \<le> of_int (round_half_even (a / 2 powr ?e)) * 2 powr ?e"
    by (simp add: mult_right_mono)
  with assms show ?thesis by (simp add: round64_pos powr_add)
qed

lemma round64_mono_pos:
  assumes "0 < a" and "a \<le> b"
  shows "round64 a \<le> round64 b"
proof -
  from assms have b: "0 < b" by simp
  have le: "ulp_exponent a \<le> ulp_exponent b"
    using assms by (rule ulp_exponent_mono)
  show ?thesis
  proof (cases "ulp_exponent a = ulp_exponent b")
    case True
    let ?s = "2 powr of_int (ulp_exponent b) :: real"
    have "a / ?s \<le> b / ?s" using assms by (simp add: divide_right_mono)
    then have "round_half_even (a / ?s) \<le> round_half_even (b / ?s)" by (rule rhe_mono)
    then have "of_int (round_half_even (a / ?s)) * ?s \<le> of_int (round_half_even (b / ?s)) * ?s"
      by (simp add: mult_right_mono)
    with assms b True show ?thesis by (simp add: round64_pos)
  next
    case False
    with le have less: "ulp_exponent a + 1 \<le> ulp_exponent b" by simp
    with ulp_exponent_ge [of a] have normal: "ulp_exponent b \<noteq> - 1074" by linarith
    have "round64 a \<le> 2 powr (of_int (ulp_exponent a) + 53)"
      using assms(1) by (rule round64_upper)
    also have "\<dots> \<le> 2 powr (of_int (ulp_exponent b) + 52)"
      using less by (simp add: powr_le_cancel_iff)
    also have "\<dots> \<le> round64 b"
      using b normal by (rule round64_lower)
    finally show ?thesis .
  qed
qed

lemma round64_mono: "a \<le> b \<Longrightarrow> round64 a \<le> round64 b"
proof -
  assume le: "a \<le> b"
  consider "0 < a" | "a \<le> 0" "0 \<le> b" | "b < 0" by linarith
  then show ?thesis
  proof cases
    case 1
    then show ?thesis using le by (rule round64_mono_pos)
  next
    case 2
    from 2(1) have "0 \<le> round64 (- a)" by (intro round64_nonneg) simp
    then have "round64 a \<le> 0" by (simp add: round64_minus)
    also from 2(2) have "0 \<le> round64 b" by (rule round64_nonneg)
    finally show ?thesis .
  next
    case 3
    then have "0 < - b" and "- b \<le> - a" using le by simp_all
    then have "round64 (- b) \<le> round64 (- a)" by (rule round64_mono_pos)
    then show ?thesis by (simp add: round64_minus)
  qed
qed

lemma floor_log2_eq:
  assumes "0 < a" and "2 powr of_int j \<le> a" and "a < 2 powr (of_int j + 1)"
  shows "\<lfloor>log 2 a\<rfloor> = j"
proof -
  from assms have "of_int j \<le> log 2 a"
    by (simp add: le_log_iff)
  moreover from assms have "log 2 a < of_int j + 1"
    by (simp add: log_less_iff)
  ultimately show ?thesis by (simp add: floor_eq_iff)
qed

lemma round64_scale:
  fixes n :: nat
  assumes "n \<le> 1074" and "2 ^ 52 \<le> a * 2 ^ n" and "a * 2 ^ n < 2 ^ 53"
  shows "round64 a = of_int (round_half_even (a * 2 ^ n)) / 2 ^ n"
proof -
  have pos: "0 < a"
  proof (rule ccontr)
    assume "\<not> 0 < a"
    then have "a * 2 ^ n \<le> 0" by (simp add: mult_le_0_iff)
    with assms(2) show False by (smt (verit) zero_less_power)
  qed
  have p: "2 powr (of_int (52 - int n)) = (2 ^ 52 / 2 ^ n :: real)"
    by (simp add: powr_diff powr_realpow)
  have q: "2 powr (of_int (52 - int n) + 1) = (2 ^ 53 / 2 ^ n :: real)"
    by (simp add: powr_diff powr_add powr_realpow)
  have "\<lfloor>log 2 a\<rfloor> = 52 - int n"
  proof (rule floor_log2_eq [OF pos])
    show "2 powr of_int (52 - int n) \<le> a"
      using assms(2) by (simp only: p) (simp add: field_simps)
    show "a < 2 powr (of_int (52 - int n) + 1)"
      using assms(3) by (simp only: q) (simp add: field_simps)
  qed
  with pos assms(1) have e: "ulp_exponent a = - int n"
    by (simp add: ulp_exponent_def)
  have s: "2 powr of_int (- int n) = (1 / 2 ^ n :: real)"
    by (simp add: powr_minus powr_realpow field_simps)
  from pos have "round64 a =
      of_int (round_half_even (a / 2 powr of_int (- int n))) * 2 powr of_int (- int n)"
    by (simp only: round64_pos e)
  also have "\<dots> = of_int (round_half_even (a / (1 / 2 ^ n))) * (1 / 2 ^ n)"
    by (simp only: s)
  also have "\<dots> = of_int (round_half_even (a * 2 ^ n)) / 2 ^ n"
    by simp
  finally show ?thesis .
qed

lemma round64_representable_pos:
  assumes "0 < m" and "m < 2 ^ 53" and "- 1074 \<le> k"
  shows "round64 (of_int m * 2 powr of_int k) = of_int m * 2 powr of_int k"
proof -
  let ?z = "of_int m * 2 powr of_int k :: real"
  have pos: "0 < ?z" using assms(1) by simp
  have "of_int m < (2 ^ 53 :: real)"
    using assms(2) by (metis of_int_less_iff of_int_numeral of_int_power)
  then have "?z < 2 ^ 53 * 2 powr of_int k"
    by (simp add: mult_strict_right_mono)
  then have "?z < 2 powr (of_int k + 53)"
    by (simp add: powr_add)
  with pos have "log 2 ?z < of_int k + 53"
    by (simp add: log_less_iff)
  then have "\<lfloor>log 2 ?z\<rfloor> < k + 53"
    by (simp add: floor_less_iff)
  with assms(3) pos have le: "ulp_exponent ?z \<le> k"
    by (simp add: ulp_exponent_def)
  define e where "e = ulp_exponent ?z"
  define d where "d = nat (k - e)"
  with le have k: "k = e + int d" by (simp add: e_def)
  have scale: "2 powr of_int k = (2 powr of_int e * 2 ^ d :: real)"
    by (subst k) (simp add: powr_add powr_realpow)
  have "of_int m * (2 powr of_int e * 2 ^ d) / 2 powr of_int e = (of_int (m * 2 ^ d) :: real)"
    by simp
  then have "?z / 2 powr of_int e = of_int (m * 2 ^ d)"
    by (simp only: scale)
  then have "round_half_even (?z / 2 powr of_int e) = m * 2 ^ d"
    by (simp only: rhe_int)
  then have "round64 ?z = of_int (m * 2 ^ d) * 2 powr of_int e"
    using pos by (simp only: round64_pos e_def)
  also have "\<dots> = of_int m * (2 powr of_int e * 2 ^ d)"
    by simp
  also have "\<dots> = ?z"
    by (simp only: scale)
  finally show ?thesis .
qed

lemma round64_idem: "round64 (round64 a) = round64 a"
proof -
  have idem_pos: "round64 (round64 b) = round64 b" if "0 < b" for b
  proof -
    let ?e = "ulp_exponent b"
    let ?m = "round_half_even (b / 2 powr of_int ?e)"
    have r: "round64 b = of_int ?m * 2 powr of_int ?e"
      using that by (rule round64_pos)
    have m0: "0 \<le> ?m" using that by (intro rhe_nonneg) simp
    have "b / 2 powr of_int ?e < 2 powr 53"
      using scaled_less [OF that] by (simp add: powr_add field_simps)
    then have "b / 2 powr of_int ?e \<le> of_int (2 ^ 53)" by simp
    then have "?m \<le> round_half_even (of_int (2 ^ 53))" by (rule rhe_mono)
    then have m53: "?m \<le> 2 ^ 53" by (simp only: rhe_int)
    consider "?m = 0" | "0 < ?m" "?m < 2 ^ 53" | "?m = 2 ^ 53"
      using m0 m53 by linarith
    then show ?thesis
    proof cases
      case 1
      with r show ?thesis by (simp add: round64_0)
    next
      case 2
      with r ulp_exponent_ge [of b] show ?thesis
        by (simp only: round64_representable_pos)
    next
      case 3
      have "round64 b = of_int (2 ^ 52) * 2 powr of_int (?e + 1)"
        by (simp add: r 3 powr_add)
      moreover have "round64 (of_int (2 ^ 52) * 2 powr of_int (?e + 1))
          = of_int (2 ^ 52) * 2 powr of_int (?e + 1)"
        using ulp_exponent_ge [of b] by (intro round64_representable_pos) simp_all
      ultimately show ?thesis by simp
    qed
  qed
  consider "0 < a" | "a = 0" | "0 < - a" by linarith
  then show ?thesis
  proof cases
    case 1
    then show ?thesis by (rule idem_pos)
  next
    case 2
    then show ?thesis by (simp add: round64_0)
  next
    case 3
    then have "round64 (round64 (- a)) = round64 (- a)" by (rule idem_pos)
    then show ?thesis by (simp add: round64_minus)
  qed
qed

lemma round64_1: "round64 1 = 1"
  using round64_scale [of 52 1] by (simp add: round_half_even_def)

lemma round64_quarter: "round64 (1 / 4) = 1 / 4"
  using round64_scale [of 54 "1 / 4"] by (simp add: round_half_even_def)


lemma round64_100: "round64 100 = 100"
  using round64_scale [of 46 100] by (simp add: round_half_even_def)

section \<open>Opacity of the connecting lines\<close>

lemma line_alpha64_antimono: "d1 \<le> d2 \<Longrightarrow> line_alpha64 d2 \<le> line_alpha64 d1"
proof -
  assume "d1 \<le> d2"
  then have "round64 (d1 / 100) \<le> round64 (d2 / 100)"
    by (intro round64_mono) simp
  then have "round64 (1 - round64 (d2 / 100)) \<le> round64 (1 - round64 (d1 / 100))"
    by (intro round64_mono) simp
  moreover have "0 \<le> round64 0.1"
    by (intro round64_nonneg) simp
  ultimately have "round64 0.1 * round64 (1 - round64 (d2 / 100))
      \<le> round64 0.1 * round64 (1 - round64 (d1 / 100))"
    by (rule mult_left_mono)
  then show ?thesis
    unfolding line_alpha64_def by (rule round64_mono)
qed

lemma line_alpha64_bounds:
  assumes "0 \<le> d" and "d \<le> 100"
  shows "0 \<le> line_alpha64 d \<and> line_alpha64 d \<le> round64 0.1"
proof -
  let ?k = "round64 0.1"
  have k: "0 \<le> ?k" by (intro round64_nonneg) simp
  from assms have "0 \<le> d / 100" "d / 100 \<le> 1" by simp_all
  then have "round64 0 \<le> round64 (d / 100)" "round64 (d / 100) \<le> round64 1"
    by (simp_all only: round64_mono)
  then have q: "0 \<le> round64 (d / 100)" "round64 (d / 100) \<le> 1"
    by (simp_all add: round64_0 round64_1)
  then have "0 \<le> 1 - round64 (d / 100)" "1 - round64 (d / 100) \<le> 1" by simp_all
  then have "round64 0 \<le> round64 (1 - round64 (d / 100))"
    "round64 (1 - round64 (d / 100)) \<le> round64 1"
    by (simp_all only: round64_mono)
  then have r: "0 \<le> round64 (1 - round64 (d / 100))" "round64 (1 - round64 (d / 100)) \<le> 1"
    by (simp_all add: round64_0 round64_1)
  from k r have "0 \<le> ?k * round64 (1 - round64 (d / 100))"
    by simp
  moreover from k r(2) have "?k * round64 (1 - round64 (d / 100)) \<le> ?k * 1"
    by (rule mult_left_mono [rotated])
  ultimately have "0 \<le> ?k * round64 (1 - round64 (d / 100))"
    "?k * round64 (1 - round64 (d / 100)) \<le> ?k * 1"
    by blast+
  then have "round64 0 \<le> round64 (?k * round64 (1 - round64 (d / 100)))"
    "round64 (?k * round64 (1 - round64 (d / 100))) \<le> round64 (?k * 1)"
    by (simp_all only: round64_mono)
  then show ?thesis
    by (simp add: line_alpha64_def round64_0 round64_idem)
qed

lemma lines_of_connect64: "lines_of (connect64 p q) = connect64 p q"
  by (simp add: lines_of_def connect64_def)

lemma lines_of_connects64:
  "lines_of (concat (map (connect64 p) qs)) = concat (map (connect64 p) qs)"
  by (induction qs) (simp_all add: lines_of_append lines_of_connect64, simp add: lines_of_def)

lemma forEach_particle64_lines:
  "lines_of (snd (forEach_particle64 c visited todo)) =
     concat (map (\<lambda>i. concat (map (connect64 (advance64 c (todo ! i)))
                          (visited @ map (advance64 c) (take (Suc i) todo) @ drop (Suc i) todo)))
              [0..<length todo])"
proof (induction todo arbitrary: visited)
  case Nil
  show ?case by (simp add: lines_of_def)
next
  case (Cons p rest)
  have circle: "lines_of (FillCircle a b r e # ops) = lines_of ops" for a b r e ops
    by (simp add: lines_of_def)
  show ?case
    by (simp only: upt_0_Suc length_Cons)
      (simp add: Let_def case_prod_unfold lines_of_append circle lines_of_connects64
        lines_of_connect64 Cons.IH comp_def del: upt_Suc)
qed

lemma animate64_lines:
  "lines_of (snd (animate64 c ps)) =
     concat (map (\<lambda>i. concat (map (connect64 (advance64 c (ps ! i)))
                          (map (advance64 c) (take (Suc i) ps) @ drop (Suc i) ps)))
              [0..<length ps])"
proof -
  have "lines_of (snd (animate64 c ps)) = lines_of (snd (forEach_particle64 c [] ps))"
    by (simp add: animate64_def Let_def case_prod_unfold lines_of_def)
  then show ?thesis
    by (simp add: forEach_particle64_lines)
qed

lemma distance64_eval:
  assumes "round64 (x p - x q) = dx" and "round64 (y p - y q) = dy"
    and "round64 (dx * dx) = sx" and "round64 (dy * dy) = sy"
    and "round64 (sx + sy) = s" and "sqrt s = r" and "round64 r = d"
  shows "distance64 p q = d"
  by (simp add: distance64_def assms)

lemma round64_minus_1: "round64 (- 1) = - 1"
  by (simp add: round64_minus round64_1)

lemma line_alpha64_1: "line_alpha64 1 = 3566850904877433 / 2 ^ 55"
proof -
  have a: "round64 (1 / 100) = 5764607523034235 / 2 ^ 59"
    using round64_scale [of 59 "1 / 100"] by (simp add: round_half_even_def)
  have b: "round64 (1 - 5764607523034235 / 2 ^ 59) = 4458563631096791 / 2 ^ 52"
    using round64_scale [of 53 "1 - 5764607523034235 / 2 ^ 59"]
    by (simp add: round_half_even_def)
  have c: "round64 0.1 = 3602879701896397 / 2 ^ 55"
    using round64_scale [of 56 "0.1"] by (simp add: round_half_even_def)
  have d: "round64 (3602879701896397 / 2 ^ 55 * (4458563631096791 / 2 ^ 52))
      = 3566850904877433 / 2 ^ 55"
    using round64_scale [of 56 "3602879701896397 / 2 ^ 55 * (4458563631096791 / 2 ^ 52)"]
    by (simp add: round_half_even_def)
  show ?thesis
    by (simp only: line_alpha64_def a b c d)
qed

lemma distance64_unit:
  "distance64 \<lparr>x = 0, y = 0, vx = 0.125, vy = 0.125, radius = 1, opacity = 0.5\<rparr>
              \<lparr>x = 0, y = 1, vx = 0.125, vy = 0.125, radius = 1, opacity = 0.5\<rparr> = 1"
  by (rule distance64_eval [where dx = 0 and dy = "- 1" and sx = 0 and sy = 1 and s = 1 and r = 1])
    (simp_all add: round64_0 round64_1 round64_minus_1)

lemma distance64_absorbed:
  "distance64 \<lparr>x = 0, y = 0, vx = 0.125, vy = 0.125, radius = 1, opacity = 0.5\<rparr>
              \<lparr>x = 1 / 2 ^ 30, y = 1, vx = 0.125, vy = 0.125, radius = 1, opacity = 0.5\<rparr> = 1"
proof (rule distance64_eval [where dx = "- (1 / 2 ^ 30)" and dy = "- 1"
      and sx = "1 / 2 ^ 60" and sy = 1 and s = 1 and r = 1])
  have "round64 (1 / 2 ^ 30) = 1 / 2 ^ 30"
    using round64_scale [of 82 "1 / 2 ^ 30"] by (simp add: round_half_even_def)
  then show "round64 (x \<lparr>x = 0, y = 0, vx = 0.125, vy = 0.125, radius = 1, opacity = 0.5\<rparr>
      - x \<lparr>x = 1 / 2 ^ 30, y = 1, vx = 0.125, vy = 0.125, radius = 1, opacity = 0.5\<rparr>)
      = - (1 / 2 ^ 30)"
    using round64_minus [of "1 / 2 ^ 30"] by simp
  show "round64 (y \<lparr>x = 0, y = 0, vx = 0.125, vy = 0.125, radius = 1, opacity = 0.5\<rparr>
      - y \<lparr>x = 1 / 2 ^ 30, y = 1, vx = 0.125, vy = 0.125, radius = 1, opacity = 0.5\<rparr>) = - 1"
    by (simp add: round64_minus_1)
  show "round64 (- (1 / 2 ^ 30) * - (1 / 2 ^ 30)) = 1 / 2 ^ 60"
    using round64_scale [of 112 "- (1 / 2 ^ 30) * - (1 / 2 ^ 30)"]
    by (simp add: round_half_even_def)
  show "round64 (- 1 * - 1) = 1"
    by (simp add: round64_1)
  show "round64 (1 / 2 ^ 60 + 1) = 1"
    using round64_scale [of 52 "1 / 2 ^ 60 + 1"] by (simp add: round_half_even_def)
  show "sqrt 1 = 1" by simp
  show "round64 1 = 1" by (rule round64_1)
qed

lemma distance64_rounds_to_100:
  "distance64 \<lparr>x = 96, y = 28 - 1 / 2 ^ 48, vx = 0.125, vy = 0.125, radius = 1, opacity = 0.5\<rparr>
              \<lparr>x = 0, y = 0, vx = 0.125, vy = 0.125, radius = 1, opacity = 0.5\<rparr> = 100"
proof (rule distance64_eval [where dx = 96 and dy = "28 - 1 / 2 ^ 48"
      and sx = 9216 and sy = "784 - 1 / 2 ^ 42" and s = 10000 and r = 100])
  show "round64 (x \<lparr>x = 96, y = 28 - 1 / 2 ^ 48, vx = 0.125, vy = 0.125, radius = 1,
                     opacity = 0.5\<rparr>
      - x \<lparr>x = 0, y = 0, vx = 0.125, vy = 0.125, radius = 1, opacity = 0.5\<rparr>) = 96"
    using round64_scale [of 46 96] by (simp add: round_half_even_def)
  show "round64 (y \<lparr>x = 96, y = 28 - 1 / 2 ^ 48, vx = 0.125, vy = 0.125, radius = 1,
                     opacity = 0.5\<rparr>
      - y \<lparr>x = 0, y = 0, vx = 0.125, vy = 0.125, radius = 1, opacity = 0.5\<rparr>)
      = 28 - 1 / 2 ^ 48"
    using round64_scale [of 48 "28 - 1 / 2 ^ 48"] by (simp add: round_half_even_def)
  show "round64 (96 * 96) = 9216"
    using round64_scale [of 39 "96 * 96"] by (simp add: round_half_even_def)
  show "round64 ((28 - 1 / 2 ^ 48) * (28 - 1 / 2 ^ 48)) = 784 - 1 / 2 ^ 42"
    using round64_scale [of 43 "(28 - 1 / 2 ^ 48) * (28 - 1 / 2 ^ 48)"]
    by (simp add: round_half_even_def)
  show "round64 (9216 + (784 - 1 / 2 ^ 42)) = 10000"
    using round64_scale [of 39 "9216 + (784 - 1 / 2 ^ 42)"] by (simp add: round_half_even_def)
  show "sqrt 10000 = 100"
    by (rule real_sqrt_unique) simp_all
  show "round64 100 = 100" by (rule round64_100)
qed

text \<open>
  Claim C5, as stated, fails in the arithmetic of the code. The opacity is not strictly
  decreasing in the distance: a particle at (0, 0) is at distance 1 from a particle at
  (0, 1) and farther from one at (2^-30, 1), but for the second pair the code computes
  \<^verbatim>\<open>dx * dx + dy * dy\<close> as 1 too (2^-60 is absorbed by the addition), so both lines get the
  opacity 0.099. And a line is not drawn for every pair at distance below 100: for
  (96, 28 - 2^-48) and (0, 0) the computed distance is exactly 100 and no line is drawn.
\<close>

theorem C5_counterexample:
  "distance \<lparr>x = 0, y = 0, vx = 0.125, vy = 0.125, radius = 1, opacity = 0.5\<rparr>
            \<lparr>x = 0, y = 1, vx = 0.125, vy = 0.125, radius = 1, opacity = 0.5\<rparr>
     < distance \<lparr>x = 0, y = 0, vx = 0.125, vy = 0.125, radius = 1, opacity = 0.5\<rparr>
            \<lparr>x = 1 / 2 ^ 30, y = 1, vx = 0.125, vy = 0.125, radius = 1, opacity = 0.5\<rparr>
   \<and> distance \<lparr>x = 0, y = 0, vx = 0.125, vy = 0.125, radius = 1, opacity = 0.5\<rparr>
            \<lparr>x = 1 / 2 ^ 30, y = 1, vx = 0.125, vy = 0.125, radius = 1, opacity = 0.5\<rparr> < 100
   \<and> connect64 \<lparr>x = 0, y = 0, vx = 0.125, vy = 0.125, radius = 1, opacity = 0.5\<rparr>
            \<lparr>x = 0, y = 1, vx = 0.125, vy = 0.125, radius = 1, opacity = 0.5\<rparr>
       = [StrokeLine 0 0 0 1 (3566850904877433 / 2 ^ 55)]
   \<and> connect64 \<lparr>x = 0, y = 0, vx = 0.125, vy = 0.125, radius = 1, opacity = 0.5\<rparr>
            \<lparr>x = 1 / 2 ^ 30, y = 1, vx = 0.125, vy = 0.125, radius = 1, opacity = 0.5\<rparr>
       = [StrokeLine 0 0 (1 / 2 ^ 30) 1 (3566850904877433 / 2 ^ 55)]
   \<and> distance \<lparr>x = 96, y = 28 - 1 / 2 ^ 48, vx = 0.125, vy = 0.125, radius = 1, opacity = 0.5\<rparr>
            \<lparr>x = 0, y = 0, vx = 0.125, vy = 0.125, radius = 1, opacity = 0.5\<rparr> < 100
   \<and> connect64 \<lparr>x = 96, y = 28 - 1 / 2 ^ 48, vx = 0.125, vy = 0.125, radius = 1, opacity = 0.5\<rparr>
            \<lparr>x = 0, y = 0, vx = 0.125, vy = 0.125, radius = 1, opacity = 0.5\<rparr> = []"
proof -
  let ?p = "\<lparr>x = 0, y = 0, vx = 0.125, vy = 0.125, radius = 1, opacity = 0.5\<rparr>"
  let ?q0 = "\<lparr>x = 0, y = 1, vx = 0.125, vy = 0.125, radius = 1, opacity = 0.5\<rparr>"
  let ?q1 = "\<lparr>x = 1 / 2 ^ 30, y = 1, vx = 0.125, vy = 0.125, radius = 1, opacity = 0.5\<rparr>"
  let ?b = "\<lparr>x = 96, y = 28 - 1 / 2 ^ 48, vx = 0.125, vy = 0.125, radius = 1, opacity = 0.5\<rparr>"
  have exact: "distance ?p ?q0 < distance ?p ?q1"
    by (simp add: distance_def)
  have near: "distance ?p ?q1 < 100"
    by (simp add: distance_less_iff)
  have below: "distance ?b ?p < 100"
    by (simp add: distance_less_iff)
  have l0: "connect64 ?p ?q0 = [StrokeLine 0 0 0 1 (3566850904877433 / 2 ^ 55)]"
    using distance64_unit line_alpha64_1 by (simp add: connect64_def)
  have l1: "connect64 ?p ?q1 = [StrokeLine 0 0 (1 / 2 ^ 30) 1 (3566850904877433 / 2 ^ 55)]"
    using distance64_absorbed line_alpha64_1 by (simp add: connect64_def)
  have none: "connect64 ?b ?p = []"
    using distance64_rounds_to_100 by (simp add: connect64_def)
  from exact near below l0 l1 none show ?thesis by blast
qed

text \<open>
  Claim C5, amended: for the pair of particles that the inner loop visits, with \<open>d\<close> the
  distance that the code computes from their positions at that moment, a line is drawn
  exactly when \<open>d < 100\<close>, from the one to the other and with the stroke opacity that the
  code computes for \<open>0.1 * (1 - d / 100)\<close>; no line is drawn when \<open>d \<ge> 100\<close>. The opacity
  does not increase with \<open>d\<close>, and lies between 0 and the binary64 value of 0.1 for \<open>d\<close> in
  \<open>[0, 100]\<close>. The pairs visited in a frame are: the \<open>i\<close>-th particle, advanced, against
  the array in which the particles up to the \<open>i\<close>-th have advanced and the later ones
  have not.
\<close>

theorem C5_line_opacity_non_increasing:
  "(distance64 p q < 100 \<longrightarrow>
      connect64 p q = [StrokeLine (x p) (y p) (x q) (y q) (line_alpha64 (distance64 p q))])
   \<and> (100 \<le> distance64 p q \<longrightarrow> connect64 p q = [])
   \<and> line_alpha64 d = round64 (round64 0.1 * round64 (1 - round64 (d / 100)))
   \<and> (d1 \<le> d2 \<longrightarrow> line_alpha64 d2 \<le> line_alpha64 d1)
   \<and> (0 \<le> d \<and> d \<le> 100 \<longrightarrow> 0 \<le> line_alpha64 d \<and> line_alpha64 d \<le> round64 0.1)
   \<and> lines_of (snd (animate64 c ps)) =
        concat (map (\<lambda>i. concat (map (connect64 (advance64 c (ps ! i)))
                            (map (advance64 c) (take (Suc i) ps) @ drop (Suc i) ps)))
                 [0..<length ps])"
  using line_alpha64_antimono [of d1 d2] line_alpha64_bounds [of d] animate64_lines [of c ps]
  by (simp add: connect64_def line_alpha64_def)

theorem C5_line_opacity_non_increasing_witness:
  "distance64 \<lparr>x = 0, y = 0, vx = 0.125, vy = 0.125, radius = 1, opacity = 0.5\<rparr>
              \<lparr>x = 0, y = 1, vx = 0.125, vy = 0.125, radius = 1, opacity = 0.5\<rparr> < 100
   \<and> connect64 \<lparr>x = 0, y = 0, vx = 0.125, vy = 0.125, radius = 1, opacity = 0.5\<rparr>
              \<lparr>x = 0, y = 1, vx = 0.125, vy = 0.125, radius = 1, opacity = 0.5\<rparr>
       = [StrokeLine 0 0 0 1 (line_alpha64 1)]
   \<and> 100 \<le> distance64
         \<lparr>x = 96, y = 28 - 1 / 2 ^ 48, vx = 0.125, vy = 0.125, radius = 1, opacity = 0.5\<rparr>
         \<lparr>x = 0, y = 0, vx = 0.125, vy = 0.125, radius = 1, opacity = 0.5\<rparr>
   \<and> line_alpha64 2 \<le> line_alpha64 1
   \<and> 0 \<le> line_alpha64 1 \<and> line_alpha64 1 \<le> round64 0.1"
  using
    C5_line_opacity_non_increasing [of "\<lparr>x = 0, y = 0, vx = 0.125, vy = 0.125, radius = 1, opacity = 0.5\<rparr>"
      "\<lparr>x = 0, y = 1, vx = 0.125, vy = 0.125, radius = 1, opacity = 0.5\<rparr>" 1 1 2
      "\<lparr>width = 800, height = 600\<rparr>" "[]"]
    distance64_unit distance64_rounds_to_100
  by simp

section \<open>The cursor follower\<close>





















section \<open>The pointer target\<close>

lemma handleMouseMove_target: "closure_target (handleMouseMove a b p) = closure_target p"
  by (simp add: closure_target_def handleMouseMove_def Let_def)

lemma updateCursor_target: "closure_target (updateCursor p) = closure_target p"
  by (simp add: closure_target_def updateCursor_def updateCursorVars_def Let_def
      split: option.splits)

lemma animateFrame_target: "closure_target (animateFrame p) = closure_target p"
  by (simp add: closure_target_def animateFrame_def Let_def case_prod_unfold
      split: option.splits)

lemma handleEvent_target: "closure_target (handleEvent e p) = closure_target p"
  by (cases e) (simp_all add: handleMouseMove_target updateCursor_target animateFrame_target)

lemma run_target: "closure_target (run es p) = closure_target p"
  by (induction es arbitrary: p) (simp_all add: handleEvent_target)

text \<open>
  Claim C1 does not hold of the code. \<^verbatim>\<open>handleMouseMove\<close> assigns the pointer's coordinates
  to properties \<^verbatim>\<open>targetX\<close> and \<^verbatim>\<open>targetY\<close> of the \<^verbatim>\<open>.cursor\<close> element, while \<^verbatim>\<open>updateCursor\<close>
  interpolates towards the variables \<^verbatim>\<open>targetX\<close> and \<^verbatim>\<open>targetY\<close> of its closure, which nothing
  assigns after their initialisation to 0. So no run of events changes the target of the
  frame update; on the desktop page, after a pointer move to (100, 200) and a frame, the
  element's properties hold (100, 200), the closure's target is still (0, 0), and the
  cursor is drawn at (0, 0), that is translated by (-10, -10).
\<close>

theorem C1_target_never_follows_pointer:
  "closure_target (run es p) = closure_target p
   \<and> (case initializeCursor example_page of
         Inl e \<Rightarrow> False
       | Inr p1 \<Rightarrow>
           mousePosition (run [MouseMove 100 200, AnimationFrame] p1) = (100, 200)
           \<and> map_option element_targetX
                (cursorElement (run [MouseMove 100 200, AnimationFrame] p1)) = Some (Some 100)
           \<and> map_option element_targetY
                (cursorElement (run [MouseMove 100 200, AnimationFrame] p1)) = Some (Some 200)
           \<and> cursorLoop (run [MouseMove 100 200, AnimationFrame] p1)
               = Some \<lparr>currentX = 0, currentY = 0, targetX = 0, targetY = 0\<rparr>
           \<and> map_option translate3d
                (cursorElement (run [MouseMove 100 200, AnimationFrame] p1))
               = Some (Some (- 10, - 10)))"
  by (simp add: run_target)
    (simp add: initializeCursor_def example_page_def updateCursor_def updateCursorVars_def
      handleMouseMove_def animateFrame_def lerp_def CONFIG_cursor_size_def
      CONFIG_cursor_followSpeed_def Let_def)

section \<open>Initialisation without the anchor element\<close>

text \<open>With its element present, and motion and width permitting, each loop starts.\<close>

lemma initializeParticles_starts:
  "\<not> isReducedMotion p \<Longrightarrow> 768 < innerWidth p \<Longrightarrow> heroElement p = Some hero \<Longrightarrow>
     \<exists>p'. initializeParticles rnd p = Inr p'
        \<and> map_option the_canvas (particleLoop p')
            = Some \<lparr>width = offsetWidth hero, height = offsetHeight hero\<rparr>
        \<and> map_option (length \<circ> particles) (particleLoop p') = Some CONFIG_particles_count
        \<and> listeners p' = listeners p @ [ResizeCanvas]"
  by (simp add: initializeParticles_def createParticleCanvas_def Let_def case_prod_unfold
      animate_fst)

lemma initializeCursor_starts:
  "\<not> isReducedMotion p \<Longrightarrow> 768 < innerWidth p \<Longrightarrow> cursorElement p = Some cursor \<Longrightarrow>
     \<exists>p'. initializeCursor p = Inr p'
        \<and> cursorLoop p' = Some \<lparr>currentX = 0, currentY = 0, targetX = 0, targetY = 0\<rparr>"
  by (simp add: initializeCursor_def updateCursor_def updateCursorVars_def lerp_def Let_def)

text \<open>
  Claim C9: without the \<^verbatim>\<open>.hero\<close> element \<^verbatim>\<open>initializeParticles\<close> returns normally and
  leaves the page as it was: no canvas, no listener, no loop, nothing drawn. Without
  the \<^verbatim>\<open>.cursor\<close> element \<^verbatim>\<open>initializeCursor\<close> does the same.
\<close>

theorem C9_absent_element_no_start:
  "(heroElement p = None \<longrightarrow> initializeParticles rnd p = Inr p)
   \<and> (cursorElement p = None \<longrightarrow> initializeCursor p = Inr p)"
  by (simp add: initializeParticles_def createParticleCanvas_def initializeCursor_def)

theorem C9_absent_element_no_start_witness:
  "heroElement bare_page = None \<and> cursorElement bare_page = None
   \<and> \<not> isReducedMotion bare_page \<and> 768 < innerWidth bare_page
   \<and> initializeParticles (\<lambda>k. 0) bare_page = Inr bare_page
   \<and> initializeCursor bare_page = Inr bare_page
   \<and> particleLoop bare_page = None \<and> cursorLoop bare_page = None"
  using C9_absent_element_no_start [of bare_page "\<lambda>k. 0"]
  by (simp add: bare_page_def example_page_def)

section \<open>The theme toggle\<close>

lemma toggleTheme_currentTheme:
  "currentTheme (toggleTheme t) =
     (if currentTheme t = js ''light'' then js ''dark'' else js ''light'')"
  by (simp add: toggleTheme_def Let_def)

lemma toggleTheme_storedTheme: "storedTheme (toggleTheme t) = Some (currentTheme (toggleTheme t))"
  by (simp add: toggleTheme_def Let_def)

lemma toggleTheme_dataTheme: "dataTheme (toggleTheme t) = Some (currentTheme (toggleTheme t))"
  by (simp add: toggleTheme_def Let_def)

lemma light_not_dark: "js ''light'' \<noteq> js ''dark''"
  by (simp add: js_def)

text \<open>
  Claim C10, as stated, fails. On a first visit the slot is empty and the theme is
  \<^verbatim>\<open>'light'\<close>; two toggles leave \<^verbatim>\<open>'light'\<close> in the slot, which is not its original
  content. And a slot holding another string, such as \<^verbatim>\<open>'blue'\<close>, makes that string the
  theme, which two toggles turn into \<^verbatim>\<open>'dark'\<close>.
\<close>

theorem C10_counterexample:
  "storedTheme (toggleTheme (toggleTheme (loadTheme None))) \<noteq> storedTheme (loadTheme None)
   \<and> currentTheme (loadTheme (Some (js ''blue''))) \<noteq> js ''light''
   \<and> currentTheme (loadTheme (Some (js ''blue''))) \<noteq> js ''dark''
   \<and> currentTheme (toggleTheme (toggleTheme (loadTheme (Some (js ''blue'')))))
       \<noteq> currentTheme (loadTheme (Some (js ''blue'')))"
  by (simp add: toggleTheme_currentTheme toggleTheme_storedTheme loadTheme_def js_def)

text \<open>
  Claim C10, amended: \<^verbatim>\<open>toggleTheme\<close> maps \<^verbatim>\<open>'light'\<close> to \<^verbatim>\<open>'dark'\<close> and every other value
  to \<^verbatim>\<open>'light'\<close>, and writes the new theme to the slot and to the document. Two toggles
  restore a theme that was \<^verbatim>\<open>'light'\<close> or \<^verbatim>\<open>'dark'\<close>, and restore the slot when it held
  that theme. The theme on loading is the slot's string, or \<^verbatim>\<open>'light'\<close> when the slot is
  empty or holds the empty string; it is \<^verbatim>\<open>'light'\<close> or \<^verbatim>\<open>'dark'\<close> when the slot is empty
  or holds one of the two.
\<close>

theorem C10_toggle_theme:
  "currentTheme (toggleTheme t) =
     (if currentTheme t = js ''light'' then js ''dark'' else js ''light'')
   \<and> storedTheme (toggleTheme t) = Some (currentTheme (toggleTheme t))
   \<and> dataTheme (toggleTheme t) = Some (currentTheme (toggleTheme t))
   \<and> (currentTheme t = js ''light'' \<or> currentTheme t = js ''dark'' \<longrightarrow>
        currentTheme (toggleTheme (toggleTheme t)) = currentTheme t)
   \<and> ((currentTheme t = js ''light'' \<or> currentTheme t = js ''dark'')
        \<and> storedTheme t = Some (currentTheme t) \<longrightarrow>
        storedTheme (toggleTheme (toggleTheme t)) = storedTheme t)
   \<and> (stored = None \<or> stored = Some [] \<or> stored = Some (js ''light'')
        \<or> stored = Some (js ''dark'') \<longrightarrow>
        currentTheme (loadTheme stored) = js ''light''
        \<or> currentTheme (loadTheme stored) = js ''dark'')
   \<and> (stored = Some s \<and> s \<noteq> [] \<longrightarrow> currentTheme (loadTheme stored) = s)
   \<and> storedTheme (loadTheme stored) = stored
   \<and> currentTheme (loadTheme None) = js ''light''
   \<and> currentTheme (loadTheme (Some [])) = js ''light''
   \<and> (currentTheme (toggleTheme t) = js ''light'' \<or> currentTheme (toggleTheme t) = js ''dark'')"
  using light_not_dark
  by (auto simp: toggleTheme_currentTheme toggleTheme_storedTheme toggleTheme_dataTheme
      loadTheme_def)

theorem C10_toggle_theme_witness:
  "currentTheme (loadTheme (Some (js ''dark''))) = js ''dark''
   \<and> storedTheme (loadTheme (Some (js ''dark''))) = Some (js ''dark'')
   \<and> currentTheme (toggleTheme (loadTheme (Some (js ''dark'')))) = js ''light''
   \<and> currentTheme (toggleTheme (toggleTheme (loadTheme (Some (js ''dark''))))) = js ''dark''
   \<and> storedTheme (toggleTheme (toggleTheme (loadTheme (Some (js ''dark'')))))
       = Some (js ''dark'')"
proof -
  have not_empty: "js ''dark'' \<noteq> []" by (simp add: js_def)
  from C10_toggle_theme [of "loadTheme (Some (js ''dark''))" "Some (js ''dark'')" "js ''dark''"] not_empty
    light_not_dark
  show ?thesis by auto
qed

section \<open>Field validation\<close>

lemma regex_test_Lit:
  "regex_test (Lit c # r) s \<longleftrightarrow> (\<exists>v. s = c # v \<and> regex_test r v)"
  by (cases s) auto

lemma regex_test_ClassPlus:
  "regex_test (ClassPlus P # r) s \<longleftrightarrow>
     (\<exists>u v. s = u @ v \<and> u \<noteq> [] \<and> list_all P u \<and> regex_test r v)"
proof (induction s)
  case Nil
  show ?case by simp
next
  case (Cons d s)
  show ?case
  proof
    assume "regex_test (ClassPlus P # r) (d # s)"
    then have d: "P d" and more: "regex_test (ClassPlus P # r) s \<or> regex_test r s"
      by simp_all
    from more show "\<exists>u v. d # s = u @ v \<and> u \<noteq> [] \<and> list_all P u \<and> regex_test r v"
    proof
      assume "regex_test (ClassPlus P # r) s"
      with Cons.IH obtain u v where "s = u @ v" "list_all P u" "regex_test r v"
        by blast
      with d have "d # s = (d # u) @ v \<and> d # u \<noteq> [] \<and> list_all P (d # u) \<and> regex_test r v"
        by simp
      then show ?thesis by blast
    next
      assume "regex_test r s"
      with d have "d # s = [d] @ s \<and> [d] \<noteq> [] \<and> list_all P [d] \<and> regex_test r s"
        by simp
      then show ?thesis by blast
    qed
  next
    assume "\<exists>u v. d # s = u @ v \<and> u \<noteq> [] \<and> list_all P u \<and> regex_test r v"
    then obtain u v where split: "d # s = u @ v" and "u \<noteq> []"
      and all: "list_all P u" and rest: "regex_test r v"
      by blast
    then obtain u' where u: "u = d # u'" and s: "s = u' @ v"
      by (cases u) auto
    show "regex_test (ClassPlus P # r) (d # s)"
    proof (cases "u' = []")
      case True
      with u s all rest show ?thesis by simp
    next
      case False
      with u s all rest have "\<exists>u v. s = u @ v \<and> u \<noteq> [] \<and> list_all P u \<and> regex_test r v"
        by auto
      with Cons.IH u all show ?thesis by simp
    qed
  qed
qed

lemma emailRegex_shape: "regex_test emailRegex s = local_at_domain_tld s"
  unfolding emailRegex_def local_at_domain_tld_def
  by (simp add: regex_test_ClassPlus regex_test_Lit) blast

lemma shape_not_empty: "local_at_domain_tld s \<Longrightarrow> s \<noteq> []"
  by (auto simp: local_at_domain_tld_def)

lemma validateField_fst:
  "fst (validateField f) \<longleftrightarrow>
     \<not> (required f \<and> trim (fvalue f) = [])
     \<and> \<not> (ftype f = js ''email'' \<and> trim (fvalue f) \<noteq> []
          \<and> \<not> regex_test emailRegex (trim (fvalue f)))"
  by (simp add: validateField_def clearFieldError_def Let_def)

lemma trim_a_b_co: "trim (js ''a@b.co'') = js ''a@b.co''"
  by (simp add: trim_def js_def isWhiteSpace_def)

lemma trim_a_b: "trim (js ''a@b'') = js ''a@b''"
  by (simp add: trim_def js_def isWhiteSpace_def)

lemma test_a_b_co: "regex_test emailRegex (js ''a@b.co'')"
  by (simp add: emailRegex_def js_def notSpaceOrAt_def isWhiteSpace_def)

lemma test_a_b: "\<not> regex_test emailRegex (js ''a@b'')"
  by (simp add: emailRegex_def js_def notSpaceOrAt_def isWhiteSpace_def)

text \<open>
  Claim C8, as stated, fails for email fields: the empty value of an email field that is
  not required does not have the shape \<^verbatim>\<open>local@domain.tld\<close> and is accepted, since the
  check of the shape is skipped for a value that is empty after trimming.
\<close>

theorem C8_counterexample:
  "ftype \<lparr>fvalue = [], required = False, ftype = js ''email'', borderColor = '''',
          errorDiv = None\<rparr> = js ''email''
   \<and> \<not> local_at_domain_tld []
   \<and> fst (validateField \<lparr>fvalue = [], required = False, ftype = js ''email'',
                          borderColor = '''', errorDiv = None\<rparr>)"
proof -
  have "\<not> regex_test emailRegex []"
    by (simp add: emailRegex_def)
  moreover have "trim [] = []"
    by (simp add: trim_def)
  ultimately show ?thesis
    by (simp add: validateField_fst emailRegex_shape [symmetric])
qed

text \<open>
  Claim C8, amended: a required field whose value is empty after trimming is rejected.
  An email field is rejected when its trimmed value is not empty and does not have the
  shape \<^verbatim>\<open>local@domain.tld\<close>, and accepted when its trimmed value has the shape. A field
  that is not required and empty after trimming is accepted, whatever its type. An email
  field with the value \<^verbatim>\<open>a@b.co\<close> is accepted and one with the value \<^verbatim>\<open>a@b\<close> is rejected.
\<close>

theorem C8_validate_field:
  "(required f \<and> trim (fvalue f) = [] \<longrightarrow> \<not> fst (validateField f))
   \<and> (ftype f = js ''email'' \<and> trim (fvalue f) \<noteq> []
        \<and> \<not> local_at_domain_tld (trim (fvalue f)) \<longrightarrow> \<not> fst (validateField f))
   \<and> (ftype f = js ''email'' \<and> local_at_domain_tld (trim (fvalue f)) \<longrightarrow>
        fst (validateField f))
   \<and> (\<not> required f \<and> trim (fvalue f) = [] \<longrightarrow> fst (validateField f))
   \<and> (ftype f = js ''email'' \<and> fvalue f = js ''a@b.co'' \<longrightarrow> fst (validateField f))
   \<and> (ftype f = js ''email'' \<and> fvalue f = js ''a@b'' \<longrightarrow> \<not> fst (validateField f))"
proof -
  have required_empty: "\<not> fst (validateField f)" if "required f \<and> trim (fvalue f) = []"
    using that by (simp add: validateField_fst)
  have bad_shape: "\<not> fst (validateField f)"
    if "ftype f = js ''email'' \<and> trim (fvalue f) \<noteq> []
        \<and> \<not> local_at_domain_tld (trim (fvalue f))"
    using that by (simp add: validateField_fst emailRegex_shape)
  have good_shape: "fst (validateField f)"
    if "ftype f = js ''email'' \<and> local_at_domain_tld (trim (fvalue f))"
    using that shape_not_empty [of "trim (fvalue f)"]
    by (auto simp: validateField_fst emailRegex_shape)
  have optional_empty: "fst (validateField f)" if "\<not> required f \<and> trim (fvalue f) = []"
    using that by (simp add: validateField_fst)
  have accepted: "fst (validateField f)" if "ftype f = js ''email'' \<and> fvalue f = js ''a@b.co''"
  proof -
    have "js ''a@b.co'' \<noteq> []"
      by (simp add: js_def)
    with that test_a_b_co show ?thesis
      by (simp add: validateField_fst trim_a_b_co)
  qed
  have rejected: "\<not> fst (validateField f)" if "ftype f = js ''email'' \<and> fvalue f = js ''a@b''"
  proof -
    have "js ''a@b'' \<noteq> []"
      by (simp add: js_def)
    with that test_a_b show ?thesis
      by (simp add: validateField_fst trim_a_b)
  qed
  from required_empty bad_shape good_shape optional_empty accepted rejected
  show ?thesis by blast
qed

theorem C8_validate_field_witness:
  "\<not> fst (validateField \<lparr>fvalue = js ''   '', required = True, ftype = js ''text'',
                           borderColor = '''', errorDiv = None\<rparr>)
   \<and> fst (validateField \<lparr>fvalue = js ''a@b.co'', required = True, ftype = js ''email'',
                          borderColor = '''', errorDiv = None\<rparr>)
   \<and> \<not> fst (validateField \<lparr>fvalue = js ''a@b'', required = True, ftype = js ''email'',
                          borderColor = '''', errorDiv = None\<rparr>)"
proof -
  have blank: "trim (js ''   '') = []"
    by (simp add: trim_def js_def isWhiteSpace_def)
  from blank
    C8_validate_field [of "\<lparr>fvalue = js ''   '', required = True, ftype = js ''text'',
              borderColor = '''', errorDiv = None\<rparr>"]
    C8_validate_field [of "\<lparr>fvalue = js ''a@b.co'', required = True, ftype = js ''email'',
              borderColor = '''', errorDiv = None\<rparr>"]
    C8_validate_field [of "\<lparr>fvalue = js ''a@b'', required = True, ftype = js ''email'',
              borderColor = '''', errorDiv = None\<rparr>"]
  show ?thesis by simp
qed

end
